theory Spec2Isabelle
  imports Complex_Main "HOL-Library.Multiset"
begin

section \<open>The students table\<close>

text \<open>
  One row of the table \<^verbatim>\<open>students\<close> created by \<^verbatim>\<open>initialize_database\<close>, column by
  column. A Python float (SQLite \<^verbatim>\<open>REAL\<close>) is the real number it denotes: the program only
  compares these values with integer constants, which is exact. A Python int is an
  \<^typ>\<open>int\<close>. \<^verbatim>\<open>prediction_date\<close> holds what \<^verbatim>\<open>CURRENT_TIMESTAMP\<close> gave at the write, a
  text \<^verbatim>\<open>YYYY-MM-DD HH:MM:SS\<close> whose bytewise order is the order of time: it is modelled
  as the number of seconds it denotes.
\<close>

record student_row =
  student_id :: int
  school_satisfaction :: real
  attendance_rate :: real
  failed_courses :: int
  commute_time :: int
  disciplinary_incidents :: int
  homework_completion :: real
  family_income :: string
  promotion_status :: string
  prediction_date :: nat

text \<open>
  The table is the list of its rows in the order of a table scan, which for an
  \<^verbatim>\<open>INTEGER PRIMARY KEY\<close> is ascending \<^verbatim>\<open>student_id\<close>. The key constraint is
  \<open>primary_key\<close>.
\<close>

type_synonym students = "student_row list"

definition primary_key :: "students \<Rightarrow> bool" where
  "primary_key tbl = distinct (map student_id tbl)"

text \<open>
  \<^verbatim>\<open>CREATE TABLE IF NOT EXISTS\<close>: a database file without the table gets an empty one, an
  existing table is left as it is.
\<close>

definition initialize_database :: "students option \<Rightarrow> students" where
  "initialize_database db = (case db of None \<Rightarrow> [] | Some tbl \<Rightarrow> tbl)"

section \<open>The rule\<close>

definition predict_promotion ::
  "real \<Rightarrow> real \<Rightarrow> int \<Rightarrow> int \<Rightarrow> int \<Rightarrow> real \<Rightarrow> string \<Rightarrow> string" where
  "predict_promotion satisfaction attendance failed commute disciplinary homework income =
     (if satisfaction > 3 \<and> attendance > 70 \<and> failed \<le> 2 \<and>
         commute \<le> 40 \<and> disciplinary \<le> 2 \<and> homework > 80
      then ''Promoted''
      else ''At Risk of Dropout'')"

section \<open>The database accessors\<close>

text \<open>
  Each accessor runs its \<^verbatim>\<open>sqlite3\<close> calls inside \<^verbatim>\<open>try\<close>, and \<^verbatim>\<open>except Exception\<close>
  turns whatever they raise into the return value. Which call raises is not decided by
  the program: it is the argument \<open>fault\<close>, the first call that raises (\<open>None\<close> when none
  does). Binding a Python int outside the 64-bit range raises \<^verbatim>\<open>OverflowError\<close> in
  \<^verbatim>\<open>execute\<close>.
\<close>

datatype db_call = Connect | Execute | Commit | Close

datatype exn = sqlite3_Error db_call | OverflowError

definition fits_int64 :: "int \<Rightarrow> bool" where
  "fits_int64 n = (- (2 ^ 63) \<le> n \<and> n < 2 ^ 63)"

text \<open>
  The row the \<^verbatim>\<open>INSERT\<close> statement builds: it names nine columns and binds the nine
  arguments to them; the tenth column, \<^verbatim>\<open>prediction_date\<close>, takes its default
  \<^verbatim>\<open>CURRENT_TIMESTAMP\<close>, here \<open>now\<close>.
\<close>

definition inserted_row ::
  "nat \<Rightarrow> int \<Rightarrow> real \<Rightarrow> real \<Rightarrow> int \<Rightarrow> int \<Rightarrow> int \<Rightarrow> real \<Rightarrow> string \<Rightarrow> string \<Rightarrow> student_row" where
  "inserted_row now sid satisfaction attendance failed commute disciplinary homework
       income status =
     \<lparr> student_id = sid, school_satisfaction = satisfaction, attendance_rate = attendance,
       failed_courses = failed, commute_time = commute, disciplinary_incidents = disciplinary,
       homework_completion = homework, family_income = income, promotion_status = status,
       prediction_date = now \<rparr>"

text \<open>
  \<^verbatim>\<open>INSERT OR REPLACE\<close>: the row with the same key, if any, is deleted and the new row
  takes its place in key order.
\<close>

definition insert_or_replace :: "student_row \<Rightarrow> students \<Rightarrow> students" where
  "insert_or_replace r tbl =
     insort_key student_id r (filter (\<lambda>x. student_id x \<noteq> student_id r) tbl)"

text \<open>
  The body of \<^verbatim>\<open>try\<close> in \<^verbatim>\<open>insert_student_data\<close>: what it returns or raises, and the
  table it leaves. A change that was executed and not committed is dropped with the
  connection.
\<close>

definition insert_student_data_try ::
  "nat \<Rightarrow> db_call option \<Rightarrow> int \<Rightarrow> real \<Rightarrow> real \<Rightarrow> int \<Rightarrow> int \<Rightarrow> int \<Rightarrow> real \<Rightarrow> string \<Rightarrow> string
     \<Rightarrow> students \<Rightarrow> (exn + bool) \<times> students" where
  "insert_student_data_try now fault sid satisfaction attendance failed commute disciplinary
       homework income status tbl =
     (if fault = Some Connect then (Inl (sqlite3_Error Connect), tbl)
      else if \<not> (fits_int64 sid \<and> fits_int64 failed \<and> fits_int64 commute \<and>
                 fits_int64 disciplinary)
      then (Inl OverflowError, tbl)
      else if fault = Some Execute then (Inl (sqlite3_Error Execute), tbl)
      else
        let tbl' = insert_or_replace
                     (inserted_row now sid satisfaction attendance failed commute
                        disciplinary homework income status) tbl
        in if fault = Some Commit then (Inl (sqlite3_Error Commit), tbl)
           else if fault = Some Close then (Inl (sqlite3_Error Close), tbl')
           else (Inr True, tbl'))"

text \<open>
  \<^verbatim>\<open>except Exception\<close> shows the message and returns \<^verbatim>\<open>False\<close>. The function returns its
  boolean and the table it leaves.
\<close>

definition insert_student_data ::
  "nat \<Rightarrow> db_call option \<Rightarrow> int \<Rightarrow> real \<Rightarrow> real \<Rightarrow> int \<Rightarrow> int \<Rightarrow> int \<Rightarrow> real \<Rightarrow> string \<Rightarrow> string
     \<Rightarrow> students \<Rightarrow> bool \<times> students" where
  "insert_student_data now fault sid satisfaction attendance failed commute disciplinary
       homework income status tbl =
     (case insert_student_data_try now fault sid satisfaction attendance failed commute
             disciplinary homework income status tbl of
        (Inl e, tbl') \<Rightarrow> (False, tbl')
      | (Inr b, tbl') \<Rightarrow> (b, tbl'))"

definition delete_student_try ::
  "db_call option \<Rightarrow> int \<Rightarrow> students \<Rightarrow> (exn + bool) \<times> students" where
  "delete_student_try fault sid tbl =
     (if fault = Some Connect then (Inl (sqlite3_Error Connect), tbl)
      else if \<not> fits_int64 sid then (Inl OverflowError, tbl)
      else if fault = Some Execute then (Inl (sqlite3_Error Execute), tbl)
      else
        let tbl' = filter (\<lambda>r. student_id r \<noteq> sid) tbl
        in if fault = Some Commit then (Inl (sqlite3_Error Commit), tbl)
           else if fault = Some Close then (Inl (sqlite3_Error Close), tbl')
           else (Inr True, tbl'))"

definition delete_student :: "db_call option \<Rightarrow> int \<Rightarrow> students \<Rightarrow> bool \<times> students" where
  "delete_student fault sid tbl =
     (case delete_student_try fault sid tbl of
        (Inl e, tbl') \<Rightarrow> (False, tbl')
      | (Inr b, tbl') \<Rightarrow> (b, tbl'))"

text \<open>
  A pandas DataFrame, as far as the program looks at one: its column labels and its rows.
  \<^verbatim>\<open>pd.DataFrame()\<close> has neither; the frame \<^verbatim>\<open>read_sql_query\<close> builds always has the
  columns of the query. \<^verbatim>\<open>df.empty\<close> holds when either axis has length 0, \<^verbatim>\<open>len(df)\<close>
  counts the rows.
\<close>

record dataframe =
  columns :: "string list"
  rows :: "student_row list"

definition DataFrame :: dataframe where
  "DataFrame = \<lparr> columns = [], rows = [] \<rparr>"

definition df_empty :: "dataframe \<Rightarrow> bool" where
  "df_empty df = (columns df = [] \<or> rows df = [])"

definition df_len :: "dataframe \<Rightarrow> nat" where
  "df_len df = length (rows df)"

definition students_columns :: "string list" where
  "students_columns =
     [''student_id'', ''school_satisfaction'', ''attendance_rate'', ''failed_courses'',
      ''commute_time'', ''disciplinary_incidents'', ''homework_completion'',
      ''family_income'', ''promotion_status'', ''prediction_date'']"

text \<open>
  \<^verbatim>\<open>SELECT * FROM students ORDER BY prediction_date DESC\<close>: the rows of a table scan,
  sorted by descending date. SQL leaves the order of rows with equal dates open; SQLite's
  sorter keeps them in the order of the scan, that is in ascending key order. The sort
  below is stable on the reversed scan, so after the final reversal equal dates stand in
  scan order.
\<close>

definition read_sql_query :: "students \<Rightarrow> dataframe" where
  "read_sql_query tbl =
     \<lparr> columns = students_columns, rows = rev (sort_key prediction_date (rev tbl)) \<rparr>"

text \<open>
  The body of \<^verbatim>\<open>try\<close> in \<^verbatim>\<open>get_all_students\<close> calls \<^verbatim>\<open>connect\<close>, \<^verbatim>\<open>read_sql_query\<close>
  and \<^verbatim>\<open>close\<close>; it never commits.
\<close>

definition get_all_students_try :: "db_call option \<Rightarrow> students \<Rightarrow> exn + dataframe" where
  "get_all_students_try fault tbl =
     (if fault = Some Connect then Inl (sqlite3_Error Connect)
      else if fault = Some Execute then Inl (sqlite3_Error Execute)
      else
        let df = read_sql_query tbl
        in if fault = Some Close then Inl (sqlite3_Error Close) else Inr df)"

definition get_all_students :: "db_call option \<Rightarrow> students \<Rightarrow> dataframe" where
  "get_all_students fault tbl =
     (case get_all_students_try fault tbl of
        Inl e \<Rightarrow> DataFrame
      | Inr df \<Rightarrow> df)"

section \<open>The pages that touch the table\<close>

text \<open>
  The handler of the button \<^verbatim>\<open>Predict & Save\<close> computes the label and passes it to
  \<^verbatim>\<open>insert_student_data\<close> together with the inputs it was computed from.
\<close>

definition predict_and_save ::
  "nat \<Rightarrow> db_call option \<Rightarrow> int \<Rightarrow> real \<Rightarrow> real \<Rightarrow> int \<Rightarrow> int \<Rightarrow> int \<Rightarrow> real \<Rightarrow> string
     \<Rightarrow> students \<Rightarrow> bool \<times> students" where
  "predict_and_save now fault sid satisfaction attendance failed commute disciplinary
       homework income tbl =
     (let status = predict_promotion satisfaction attendance failed commute disciplinary
                     homework income
      in insert_student_data now fault sid satisfaction attendance failed commute
           disciplinary homework income status tbl)"

text \<open>
  What a user can do to the table: submit the form, press \<^verbatim>\<open>Delete\<close>, or open a page that
  only reads (\<^verbatim>\<open>Home\<close>, \<^verbatim>\<open>View Database\<close>, \<^verbatim>\<open>Analytics\<close>).
\<close>

datatype action =
    Submit nat "db_call option" int real real int int int real string
  | Delete "db_call option" int
  | View "db_call option"

fun step :: "students \<Rightarrow> action \<Rightarrow> students" where
  "step tbl (Submit now fault sid satisfaction attendance failed commute disciplinary homework income) =
     snd (predict_and_save now fault sid satisfaction attendance failed commute disciplinary
            homework income tbl)"
| "step tbl (Delete fault sid) = snd (delete_student fault sid tbl)"
| "step tbl (View fault) = tbl"

definition run :: "action list \<Rightarrow> students \<Rightarrow> students" where
  "run acts tbl = foldl step tbl acts"

text \<open>The label of a row is the rule's answer on the inputs stored beside it.\<close>

definition label_matches :: "student_row \<Rightarrow> bool" where
  "label_matches r =
     (promotion_status r =
        predict_promotion (school_satisfaction r) (attendance_rate r) (failed_courses r)
          (commute_time r) (disciplinary_incidents r) (homework_completion r) (family_income r))"

definition consistent :: "students \<Rightarrow> bool" where
  "consistent tbl = list_all label_matches tbl"

section \<open>Rows of a key\<close>

text \<open>The rows of a table, or of a result, that carry a given \<^verbatim>\<open>student_id\<close>.\<close>

definition with_id :: "int \<Rightarrow> student_row list \<Rightarrow> student_row list" where
  "with_id sid rs = filter (\<lambda>x. student_id x = sid) rs"

definition without_id :: "int \<Rightarrow> student_row list \<Rightarrow> student_row list" where
  "without_id sid rs = filter (\<lambda>x. student_id x \<noteq> sid) rs"

section \<open>Lists of rows\<close>

lemma filter_insort_key_only:
  "P x \<Longrightarrow> \<forall>y\<in>set xs. \<not> P y \<Longrightarrow> filter P (insort_key f x xs) = [x]"
  by (induction xs) auto

lemma filter_insort_key_skip:
  "\<not> P x \<Longrightarrow> filter P (insort_key f x xs) = filter P xs"
  by (induction xs) auto

lemma with_id_insert_or_replace:
  "with_id (student_id r) (insert_or_replace r tbl) = [r]"
  unfolding with_id_def insert_or_replace_def
  by (rule filter_insort_key_only) auto

lemma without_id_insert_or_replace:
  "without_id (student_id r) (insert_or_replace r tbl) = without_id (student_id r) tbl"
  unfolding without_id_def insert_or_replace_def
  by (simp add: filter_insort_key_skip)

lemma filter_single_mset:
  assumes "mset ys = mset xs" and "filter P xs = [r]"
  shows "filter P ys = [r]"
proof -
  have "mset (filter P ys) = mset (filter P xs)"
    using assms(1) by simp
  then have "mset (filter P ys) = {#r#}"
    by (simp only: assms(2) mset.simps)
  then show ?thesis
    by (simp only: mset_single_iff)
qed

lemma length_filter_key_le_1:
  "distinct (map f xs) \<Longrightarrow> length (filter (\<lambda>x. f x = k) xs) \<le> 1"
proof (induction xs)
  case Nil
  show ?case by simp
next
  case (Cons a xs)
  show ?case
  proof (cases "f a = k")
    case True
    with Cons.prems have "\<forall>x\<in>set xs. f x \<noteq> k"
      by (auto simp: image_iff)
    then have "filter (\<lambda>x. f x = k) xs = []"
      by (simp add: filter_empty_conv)
    with True show ?thesis by simp
  next
    case False
    with Cons show ?thesis by simp
  qed
qed

lemma primary_key_insert_or_replace:
  "primary_key tbl \<Longrightarrow> primary_key (insert_or_replace r tbl)"
  unfolding primary_key_def insert_or_replace_def
  by (simp add: distinct_insort_key distinct_map_filter image_iff)

section \<open>What the accessors do when nothing raises\<close>


lemma insert_student_data_cases:
  "snd (insert_student_data now fault sid sat att fc com dis hw inc st tbl) = tbl \<or>
   snd (insert_student_data now fault sid sat att fc com dis hw inc st tbl) =
     insert_or_replace (inserted_row now sid sat att fc com dis hw inc st) tbl"
  by (simp add: insert_student_data_def insert_student_data_try_def Let_def)

lemma insert_succeeds_when_nothing_raises:
  assumes "fits_int64 sid" and "fits_int64 fc" and "fits_int64 com" and "fits_int64 dis"
  shows "insert_student_data now None sid sat att fc com dis hw inc st tbl =
           (True, insert_or_replace (inserted_row now sid sat att fc com dis hw inc st) tbl)"
  using assms
  by (simp add: insert_student_data_def insert_student_data_try_def Let_def)

lemma without_id_insert_student_data:
  "without_id sid (snd (insert_student_data now fault sid sat att fc com dis hw inc st tbl)) =
   without_id sid tbl"
proof -
  let ?r = "inserted_row now sid sat att fc com dis hw inc st"
  have "without_id (student_id ?r) (insert_or_replace ?r tbl) = without_id (student_id ?r) tbl"
    by (rule without_id_insert_or_replace)
  then have "without_id sid (insert_or_replace ?r tbl) = without_id sid tbl"
    by (simp add: inserted_row_def)
  then show ?thesis
    using insert_student_data_cases [of now fault sid sat att fc com dis hw inc st tbl]
    by auto
qed

lemma delete_student_cases:
  "snd (delete_student fault sid tbl) = tbl \<or>
   snd (delete_student fault sid tbl) = without_id sid tbl"
  by (simp add: delete_student_def delete_student_try_def without_id_def Let_def)

lemma student_id_inserted_row [simp]:
  "student_id (inserted_row now sid sat att fc com dis hw inc st) = sid"
  by (simp add: inserted_row_def)

lemma rows_get_all_students:
  "rows (get_all_students None tbl) = rev (sort_key prediction_date (rev tbl))"
  by (simp add: get_all_students_def get_all_students_try_def read_sql_query_def)

text \<open>Rows written at the same second are listed in key order, behind the later ones.\<close>

lemma rows_get_all_students_equal_dates:
  "map student_id (rows (get_all_students None
      [inserted_row 5 1 4 85 0 20 0 90 ''low'' ''Promoted'',
       inserted_row 5 2 4 85 0 20 0 90 ''low'' ''Promoted'',
       inserted_row 9 3 4 85 0 20 0 90 ''low'' ''Promoted'',
       inserted_row 9 4 4 85 0 20 0 90 ''low'' ''Promoted''])) = [3, 4, 1, 2]"
  by (simp add: rows_get_all_students inserted_row_def)

lemma mset_rows_get_all_students:
  "mset (rows (get_all_students None tbl)) = mset tbl"
  by (simp add: rows_get_all_students)

section \<open>The primary key holds in every table the program builds\<close>

lemma primary_key_without_id:
  "primary_key tbl \<Longrightarrow> primary_key (without_id sid tbl)"
  unfolding primary_key_def without_id_def
  by (simp add: distinct_map_filter)

lemma primary_key_step:
  assumes "primary_key tbl"
  shows "primary_key (step tbl a)"
proof (cases a)
  case (Submit now fault sid sat att fc com dis hw inc)
  let ?r = "inserted_row now sid sat att fc com dis hw inc
              (predict_promotion sat att fc com dis hw inc)"
  have "step tbl a = tbl \<or> step tbl a = insert_or_replace ?r tbl"
    using insert_student_data_cases
      [of now fault sid sat att fc com dis hw inc "predict_promotion sat att fc com dis hw inc" tbl]
    by (simp add: Submit predict_and_save_def)
  then show ?thesis
    using assms primary_key_insert_or_replace [OF assms, of ?r] by auto
next
  case (Delete fault sid)
  have "step tbl a = tbl \<or> step tbl a = without_id sid tbl"
    using delete_student_cases [of fault sid tbl] by (simp add: Delete)
  then show ?thesis
    using assms primary_key_without_id [OF assms, of sid] by auto
next
  case (View fault)
  then show ?thesis using assms by simp
qed

lemma primary_key_run:
  "primary_key (run acts (initialize_database None))"
proof -
  have step: "primary_key tbl \<Longrightarrow> primary_key (foldl step tbl acts)" for tbl
    by (induction acts arbitrary: tbl) (simp_all add: primary_key_step)
  have "primary_key (initialize_database None)"
    by (simp add: primary_key_def initialize_database_def)
  then show ?thesis
    unfolding run_def by (rule step)
qed

section \<open>Stored labels agree with stored inputs\<close>

lemma label_matches_inserted_row:
  "label_matches (inserted_row now sid sat att fc com dis hw inc
                    (predict_promotion sat att fc com dis hw inc))"
  by (simp add: label_matches_def inserted_row_def)

lemma consistent_insert_or_replace:
  "label_matches r \<Longrightarrow> consistent tbl \<Longrightarrow> consistent (insert_or_replace r tbl)"
  by (auto simp: consistent_def insert_or_replace_def list_all_iff set_insort_key)

lemma consistent_without_id:
  "consistent tbl \<Longrightarrow> consistent (without_id sid tbl)"
  by (auto simp: consistent_def without_id_def list_all_iff)

lemma consistent_step:
  assumes "consistent tbl"
  shows "consistent (step tbl a)"
proof (cases a)
  case (Submit now fault sid sat att fc com dis hw inc)
  let ?r = "inserted_row now sid sat att fc com dis hw inc
              (predict_promotion sat att fc com dis hw inc)"
  have "step tbl a = tbl \<or> step tbl a = insert_or_replace ?r tbl"
    using insert_student_data_cases
      [of now fault sid sat att fc com dis hw inc "predict_promotion sat att fc com dis hw inc" tbl]
    by (simp add: Submit predict_and_save_def)
  then show ?thesis
    using assms consistent_insert_or_replace [OF label_matches_inserted_row assms]
    by auto
next
  case (Delete fault sid)
  have "step tbl a = tbl \<or> step tbl a = without_id sid tbl"
    using delete_student_cases [of fault sid tbl] by (simp add: Delete)
  then show ?thesis
    using assms consistent_without_id [OF assms] by auto
next
  case (View fault)
  then show ?thesis using assms by simp
qed

lemma consistent_run:
  "consistent tbl \<Longrightarrow> consistent (run acts tbl)"
  unfolding run_def
  by (induction acts arbitrary: tbl) (simp_all add: consistent_step)

text \<open>
  C2. Whatever sequence of submissions, deletions and page views is run on a fresh
  database, and whichever of their database calls raise, every row of the table carries
  the label that \<^verbatim>\<open>predict_promotion\<close> gives for the inputs stored in that row.
\<close>

theorem stored_labels_consistent:
  "consistent (run acts (initialize_database None))"
proof -
  have "consistent (initialize_database None)"
    by (simp add: consistent_def initialize_database_def)
  then show ?thesis by (rule consistent_run)
qed

theorem stored_labels_consistent_witness:
  "run [Submit 5 None 1 4 85 0 20 0 90 ''low'',
        Submit 6 None 2 (5 / 2) 85 0 20 0 90 ''high'',
        Submit 7 (Some Commit) 3 4 85 0 20 0 90 ''low'',
        View None,
        Submit 8 None 1 4 85 3 20 0 90 ''medium'',
        Delete None 2] (initialize_database None)
     = [inserted_row 8 1 4 85 3 20 0 90 ''medium'' ''At Risk of Dropout''] \<and>
   consistent (run [Submit 5 None 1 4 85 0 20 0 90 ''low'',
        Submit 6 None 2 (5 / 2) 85 0 20 0 90 ''high'',
        Submit 7 (Some Commit) 3 4 85 0 20 0 90 ''low'',
        View None,
        Submit 8 None 1 4 85 3 20 0 90 ''medium'',
        Delete None 2] (initialize_database None))"
  using stored_labels_consistent [of "[Submit 5 None 1 4 85 0 20 0 90 ''low'',
        Submit 6 None 2 (5 / 2) 85 0 20 0 90 ''high'',
        Submit 7 (Some Commit) 3 4 85 0 20 0 90 ''low'',
        View None,
        Submit 8 None 1 4 85 3 20 0 90 ''medium'',
        Delete None 2]"]
  by (simp add: run_def initialize_database_def predict_and_save_def predict_promotion_def
      insert_student_data_def insert_student_data_try_def delete_student_def
      delete_student_try_def insert_or_replace_def inserted_row_def fits_int64_def)

section \<open>The rule decides by six thresholds\<close>

text \<open>
  C1. \<^verbatim>\<open>predict_promotion\<close> answers \<^verbatim>\<open>Promoted\<close> exactly when all six clauses hold
  (satisfaction above 3, attendance above 70, at most 2 failed courses, a commute of at
  most 40, at most 2 disciplinary incidents, homework above 80), and
  \<^verbatim>\<open>At Risk of Dropout\<close> exactly when one of them fails; so one failing clause is
  enough for \<^verbatim>\<open>At Risk of Dropout\<close>.
\<close>

theorem predict_promotion_iff:
  "(predict_promotion s a f c d h i = ''Promoted'') =
     (s > 3 \<and> a > 70 \<and> f \<le> 2 \<and> c \<le> 40 \<and> d \<le> 2 \<and> h > 80) \<and>
   (predict_promotion s a f c d h i = ''At Risk of Dropout'') =
     (\<not> (s > 3 \<and> a > 70 \<and> f \<le> 2 \<and> c \<le> 40 \<and> d \<le> 2 \<and> h > 80))"
  by (simp add: predict_promotion_def)

theorem predict_promotion_iff_witness:
  "predict_promotion 4 85 0 20 0 90 ''low'' = ''Promoted'' \<and>
   predict_promotion (5 / 2) 85 0 20 0 90 ''high'' = ''At Risk of Dropout'' \<and>
   predict_promotion 4 70 0 20 0 90 ''low'' = ''At Risk of Dropout'' \<and>
   predict_promotion 4 85 3 20 0 90 ''medium'' = ''At Risk of Dropout'' \<and>
   predict_promotion 4 85 0 41 0 90 ''low'' = ''At Risk of Dropout'' \<and>
   predict_promotion 4 85 0 20 3 90 ''low'' = ''At Risk of Dropout'' \<and>
   predict_promotion 4 85 0 20 0 80 ''low'' = ''At Risk of Dropout''"
  using predict_promotion_iff [of 4 85 0 20 0 90 "''low''"]
    predict_promotion_iff [of "5 / 2" 85 0 20 0 90 "''high''"]
    predict_promotion_iff [of 4 70 0 20 0 90 "''low''"]
    predict_promotion_iff [of 4 85 3 20 0 90 "''medium''"]
    predict_promotion_iff [of 4 85 0 41 0 90 "''low''"]
    predict_promotion_iff [of 4 85 0 20 3 90 "''low''"]
    predict_promotion_iff [of 4 85 0 20 0 80 "''low''"]
  by simp

section \<open>The income is not looked at\<close>

text \<open>
  C4. Two calls of \<^verbatim>\<open>predict_promotion\<close> that differ only in the income return the same
  label.
\<close>

theorem predict_promotion_ignores_income:
  "predict_promotion s a f c d h income1 = predict_promotion s a f c d h income2"
  by (simp add: predict_promotion_def)

section \<open>Writing a record and reading it back\<close>

text \<open>
  C3. Take any table and any record whose integers SQLite can bind, labelled with what
  \<^verbatim>\<open>predict_promotion\<close> gives for its inputs (as \<^verbatim>\<open>Predict & Save\<close> passes it). When
  no database call raises, \<^verbatim>\<open>insert_student_data\<close> returns \<^verbatim>\<open>True\<close>, and the
  \<^verbatim>\<open>get_all_students\<close> that follows has exactly one row with the record's
  \<^verbatim>\<open>student_id\<close>, whether the table had a row for that key or not: the row holds the
  record's inputs, field by field, the date of the write, and the rule's label.
\<close>

theorem upsert_then_list_all:
  assumes "fits_int64 sid" and "fits_int64 fc" and "fits_int64 com" and "fits_int64 dis"
  shows "fst (insert_student_data now None sid sat att fc com dis hw inc
                (predict_promotion sat att fc com dis hw inc) tbl) \<and>
         with_id sid (rows (get_all_students None
             (snd (insert_student_data now None sid sat att fc com dis hw inc
                     (predict_promotion sat att fc com dis hw inc) tbl)))) =
           [\<lparr> student_id = sid, school_satisfaction = sat, attendance_rate = att,
              failed_courses = fc, commute_time = com, disciplinary_incidents = dis,
              homework_completion = hw, family_income = inc,
              promotion_status = predict_promotion sat att fc com dis hw inc,
              prediction_date = now \<rparr>] \<and>
         map promotion_status (with_id sid (rows (get_all_students None
             (snd (insert_student_data now None sid sat att fc com dis hw inc
                     (predict_promotion sat att fc com dis hw inc) tbl))))) =
           [predict_promotion sat att fc com dis hw inc]"
proof -
  let ?st = "predict_promotion sat att fc com dis hw inc"
  let ?r = "inserted_row now sid sat att fc com dis hw inc ?st"
  let ?w = "insert_student_data now None sid sat att fc com dis hw inc ?st tbl"
  have w: "?w = (True, insert_or_replace ?r tbl)"
    using assms by (rule insert_succeeds_when_nothing_raises)
  have "with_id (student_id ?r) (insert_or_replace ?r tbl) = [?r]"
    by (rule with_id_insert_or_replace)
  then have "filter (\<lambda>x. student_id x = sid) (insert_or_replace ?r tbl) = [?r]"
    by (simp add: with_id_def)
  then have "filter (\<lambda>x. student_id x = sid)
      (rows (get_all_students None (insert_or_replace ?r tbl))) = [?r]"
    by (rule filter_single_mset [OF mset_rows_get_all_students])
  then have one: "with_id sid (rows (get_all_students None (snd ?w))) = [?r]"
    by (simp add: with_id_def w)
  have ok: "fst ?w"
    by (simp add: w)
  from ok one show ?thesis
    by (simp add: inserted_row_def)
qed

theorem upsert_then_list_all_witness:
  "fits_int64 1 \<and> fits_int64 3 \<and> fits_int64 20 \<and> fits_int64 0 \<and>
   fst (insert_student_data 9 None 1 4 85 3 20 0 90 ''medium''
          (predict_promotion 4 85 3 20 0 90 ''medium'')
          [inserted_row 6 2 4 85 0 20 0 90 ''low'' ''Promoted'']) \<and>
   with_id 1 (rows (get_all_students None
       (snd (insert_student_data 9 None 1 4 85 3 20 0 90 ''medium''
               (predict_promotion 4 85 3 20 0 90 ''medium'')
               [inserted_row 6 2 4 85 0 20 0 90 ''low'' ''Promoted'']))))
     = [\<lparr> student_id = 1, school_satisfaction = 4, attendance_rate = 85,
          failed_courses = 3, commute_time = 20, disciplinary_incidents = 0,
          homework_completion = 90, family_income = ''medium'',
          promotion_status = ''At Risk of Dropout'', prediction_date = 9 \<rparr>] \<and>
   with_id 1 [inserted_row 6 2 4 85 0 20 0 90 ''low'' ''Promoted''] = [] \<and>
   fst (insert_student_data 9 None 1 4 85 0 20 0 90 ''low''
          (predict_promotion 4 85 0 20 0 90 ''low'')
          [inserted_row 5 1 2 50 4 60 3 40 ''high'' ''At Risk of Dropout'',
           inserted_row 6 2 4 85 0 20 0 90 ''low'' ''Promoted'']) \<and>
   with_id 1 (rows (get_all_students None
       (snd (insert_student_data 9 None 1 4 85 0 20 0 90 ''low''
               (predict_promotion 4 85 0 20 0 90 ''low'')
               [inserted_row 5 1 2 50 4 60 3 40 ''high'' ''At Risk of Dropout'',
                inserted_row 6 2 4 85 0 20 0 90 ''low'' ''Promoted'']))))
     = [\<lparr> student_id = 1, school_satisfaction = 4, attendance_rate = 85,
          failed_courses = 0, commute_time = 20, disciplinary_incidents = 0,
          homework_completion = 90, family_income = ''low'',
          promotion_status = ''Promoted'', prediction_date = 9 \<rparr>]"
proof -
  have f: "fits_int64 1" "fits_int64 3" "fits_int64 20" "fits_int64 0"
    by (simp_all add: fits_int64_def)
  have p1: "predict_promotion 4 85 3 20 0 90 ''medium'' = ''At Risk of Dropout''"
    by (simp add: predict_promotion_def)
  have p2: "predict_promotion 4 85 0 20 0 90 ''low'' = ''Promoted''"
    by (simp add: predict_promotion_def)
  have fresh: "with_id 1 [inserted_row 6 2 4 85 0 20 0 90 ''low'' ''Promoted''] = []"
    by (simp add: with_id_def inserted_row_def)
  note new_key = upsert_then_list_all
    [where sid = 1 and fc = 3 and com = 20 and dis = 0 and now = 9 and sat = 4 and att = 85
       and hw = 90 and inc = "''medium''"
       and tbl = "[inserted_row 6 2 4 85 0 20 0 90 ''low'' ''Promoted'']",
     OF f(1) f(2) f(3) f(4)]
  note old_key = upsert_then_list_all
    [where sid = 1 and fc = 0 and com = 20 and dis = 0 and now = 9 and sat = 4 and att = 85
       and hw = 90 and inc = "''low''"
       and tbl = "[inserted_row 5 1 2 50 4 60 3 40 ''high'' ''At Risk of Dropout'',
                   inserted_row 6 2 4 85 0 20 0 90 ''low'' ''Promoted'']",
     OF f(1) f(4) f(3) f(4)]
  show ?thesis
    using f fresh new_key old_key by (simp add: p1 p2)
qed

section \<open>Writing the same key twice\<close>

text \<open>
  C5. Take any table and two calls of \<^verbatim>\<open>insert_student_data\<close> with the same
  \<^verbatim>\<open>student_id\<close>. Whatever the first call wrote or failed to write, when no database
  call raises in the second and SQLite can bind its integers, the second returns
  \<^verbatim>\<open>True\<close> and leaves exactly one row with that key: the nine arguments of the second
  call, field by field, dated at the second call. Nothing of the first call remains, and
  the rows of other keys are those of the table before both calls.
\<close>

theorem upsert_twice_same_key:
  assumes "fits_int64 sid" and "fits_int64 fc_b" and "fits_int64 com_b" and "fits_int64 dis_b"
  shows "fst (insert_student_data now_b None sid sat_b att_b fc_b com_b dis_b hw_b inc_b st_b
           (snd (insert_student_data now_a fault_a sid sat_a att_a fc_a com_a dis_a hw_a inc_a st_a tbl))) \<and>
         with_id sid (snd (insert_student_data now_b None sid sat_b att_b fc_b com_b dis_b hw_b inc_b st_b
           (snd (insert_student_data now_a fault_a sid sat_a att_a fc_a com_a dis_a hw_a inc_a st_a tbl)))) =
           [\<lparr> student_id = sid, school_satisfaction = sat_b, attendance_rate = att_b,
              failed_courses = fc_b, commute_time = com_b, disciplinary_incidents = dis_b,
              homework_completion = hw_b, family_income = inc_b, promotion_status = st_b,
              prediction_date = now_b \<rparr>] \<and>
         without_id sid (snd (insert_student_data now_b None sid sat_b att_b fc_b com_b dis_b hw_b inc_b st_b
           (snd (insert_student_data now_a fault_a sid sat_a att_a fc_a com_a dis_a hw_a inc_a st_a tbl)))) =
           without_id sid tbl"
proof -
  let ?r = "inserted_row now_b sid sat_b att_b fc_b com_b dis_b hw_b inc_b st_b"
  let ?t1 = "snd (insert_student_data now_a fault_a sid sat_a att_a fc_a com_a dis_a hw_a inc_a st_a tbl)"
  let ?w = "insert_student_data now_b None sid sat_b att_b fc_b com_b dis_b hw_b inc_b st_b ?t1"
  have w: "?w = (True, insert_or_replace ?r ?t1)"
    using assms by (rule insert_succeeds_when_nothing_raises)
  have "with_id (student_id ?r) (insert_or_replace ?r ?t1) = [?r]"
    by (rule with_id_insert_or_replace)
  then have one: "with_id sid (snd ?w) = [?r]"
    by (simp add: w)
  have "without_id sid (snd ?w) = without_id sid ?t1"
    by (rule without_id_insert_student_data)
  also have "\<dots> = without_id sid tbl"
    by (rule without_id_insert_student_data)
  finally have others: "without_id sid (snd ?w) = without_id sid tbl" .
  have ok: "fst ?w"
    by (simp add: w)
  from ok one others show ?thesis
    by (simp add: inserted_row_def)
qed

theorem upsert_twice_same_key_witness:
  "fits_int64 1 \<and> fits_int64 4 \<and> fits_int64 60 \<and> fits_int64 3 \<and>
   snd (insert_student_data 5 None 1 4 85 0 20 0 90 ''low'' ''Promoted''
          [inserted_row 3 2 4 85 0 20 0 90 ''low'' ''Promoted''])
     = [inserted_row 5 1 4 85 0 20 0 90 ''low'' ''Promoted'',
        inserted_row 3 2 4 85 0 20 0 90 ''low'' ''Promoted''] \<and>
   fst (insert_student_data 9 None 1 2 50 4 60 3 40 ''high'' ''At Risk of Dropout''
         (snd (insert_student_data 5 None 1 4 85 0 20 0 90 ''low'' ''Promoted''
            [inserted_row 3 2 4 85 0 20 0 90 ''low'' ''Promoted'']))) \<and>
   with_id 1 (snd (insert_student_data 9 None 1 2 50 4 60 3 40 ''high'' ''At Risk of Dropout''
         (snd (insert_student_data 5 None 1 4 85 0 20 0 90 ''low'' ''Promoted''
            [inserted_row 3 2 4 85 0 20 0 90 ''low'' ''Promoted'']))))
     = [\<lparr> student_id = 1, school_satisfaction = 2, attendance_rate = 50,
          failed_courses = 4, commute_time = 60, disciplinary_incidents = 3,
          homework_completion = 40, family_income = ''high'',
          promotion_status = ''At Risk of Dropout'', prediction_date = 9 \<rparr>]"
proof -
  have f: "fits_int64 1" "fits_int64 4" "fits_int64 60" "fits_int64 3"
    by (simp_all add: fits_int64_def)
  have first: "snd (insert_student_data 5 None 1 4 85 0 20 0 90 ''low'' ''Promoted''
          [inserted_row 3 2 4 85 0 20 0 90 ''low'' ''Promoted''])
     = [inserted_row 5 1 4 85 0 20 0 90 ''low'' ''Promoted'',
        inserted_row 3 2 4 85 0 20 0 90 ''low'' ''Promoted'']"
    by (simp add: insert_student_data_def insert_student_data_try_def insert_or_replace_def
        inserted_row_def fits_int64_def)
  note twice = upsert_twice_same_key
    [where sid = 1 and fc_b = 4 and com_b = 60 and dis_b = 3 and now_b = 9 and sat_b = 2
       and att_b = 50 and hw_b = 40 and inc_b = "''high''" and st_b = "''At Risk of Dropout''"
       and now_a = 5 and fault_a = None and sat_a = 4 and att_a = 85 and fc_a = 0 and com_a = 20
       and dis_a = 0 and hw_a = 90 and inc_a = "''low''" and st_a = "''Promoted''"
       and tbl = "[inserted_row 3 2 4 85 0 20 0 90 ''low'' ''Promoted'']",
     OF f(1) f(2) f(3) f(4)]
  show ?thesis
    using f first conjunct1 [OF twice] conjunct1 [OF conjunct2 [OF twice]]
    by (intro conjI)
qed

section \<open>The date of a write\<close>



section \<open>Deleting\<close>

text \<open>
  C6. When no row has the given \<^verbatim>\<open>student_id\<close>, \<^verbatim>\<open>delete_student\<close> leaves the table
  as it is, whichever call raises; and when no call raises (no database fault, and the
  id is one SQLite can bind) it returns \<^verbatim>\<open>True\<close>: a missing row is not an error. The
  boolean it returns is the one it returns on any other table, with or without the row.
\<close>

theorem delete_missing_is_noop:
  assumes "with_id sid tbl = []"
  shows "snd (delete_student fault sid tbl) = tbl \<and>
         (fits_int64 sid \<longrightarrow> delete_student None sid tbl = (True, tbl)) \<and>
         fst (delete_student fault sid tbl) = fst (delete_student fault sid other)"
proof -
  have "\<forall>x\<in>set tbl. student_id x \<noteq> sid"
    using assms by (simp add: with_id_def filter_empty_conv)
  then have "filter (\<lambda>r. student_id r \<noteq> sid) tbl = tbl"
    by (simp add: filter_id_conv)
  then show ?thesis
    by (simp add: delete_student_def delete_student_try_def Let_def)
qed

theorem delete_missing_is_noop_witness:
  "with_id 2 [inserted_row 9 1 4 85 0 20 0 90 ''low'' ''Promoted''] = [] \<and>
   fits_int64 2 \<and>
   delete_student None 2 [inserted_row 9 1 4 85 0 20 0 90 ''low'' ''Promoted'']
     = (True, [inserted_row 9 1 4 85 0 20 0 90 ''low'' ''Promoted'']) \<and>
   snd (delete_student (Some Execute) 2 [inserted_row 9 1 4 85 0 20 0 90 ''low'' ''Promoted''])
     = [inserted_row 9 1 4 85 0 20 0 90 ''low'' ''Promoted'']"
proof -
  have h: "with_id 2 [inserted_row 9 1 4 85 0 20 0 90 ''low'' ''Promoted''] = []"
    by (simp add: with_id_def inserted_row_def)
  have f: "fits_int64 2"
    by (simp add: fits_int64_def)
  show ?thesis
    using h f delete_missing_is_noop [OF h, of None]
      delete_missing_is_noop [OF h, of "Some Execute"]
    by simp
qed

text \<open>
  C10. \<^verbatim>\<open>delete_student\<close> leaves every row with another \<^verbatim>\<open>student_id\<close> in the table,
  unchanged and in its place; it adds nothing; and in a table that respects the primary
  key it removes at most one row.
\<close>

theorem delete_student_frame:
  "without_id sid (snd (delete_student fault sid tbl)) = without_id sid tbl \<and>
   mset (snd (delete_student fault sid tbl)) \<subseteq># mset tbl \<and>
   (primary_key tbl \<longrightarrow> length tbl \<le> Suc (length (snd (delete_student fault sid tbl))))"
proof -
  have cases: "snd (delete_student fault sid tbl) = tbl \<or>
      snd (delete_student fault sid tbl) = without_id sid tbl"
    by (rule delete_student_cases)
  have idem: "without_id sid (without_id sid tbl) = without_id sid tbl"
    by (simp add: without_id_def)
  have sub: "mset (without_id sid tbl) \<subseteq># mset tbl"
    by (simp add: without_id_def)
  have len: "length tbl \<le> Suc (length (without_id sid tbl))" if "primary_key tbl"
  proof -
    have "length tbl = length (filter (\<lambda>x. student_id x = sid) tbl) +
        length (filter (\<lambda>x. \<not> student_id x = sid) tbl)"
      by (simp only: sum_length_filter_compl)
    moreover have "length (filter (\<lambda>x. student_id x = sid) tbl) \<le> 1"
      using that unfolding primary_key_def by (rule length_filter_key_le_1)
    ultimately show ?thesis by (simp add: without_id_def)
  qed
  from cases show ?thesis
  proof
    assume "snd (delete_student fault sid tbl) = tbl"
    then show ?thesis by simp
  next
    assume "snd (delete_student fault sid tbl) = without_id sid tbl"
    then show ?thesis using idem sub len by simp
  qed
qed

theorem delete_student_frame_witness:
  "primary_key [inserted_row 9 1 4 85 0 20 0 90 ''low'' ''Promoted'',
                inserted_row 6 2 2 50 4 60 3 40 ''high'' ''At Risk of Dropout'',
                inserted_row 7 3 4 85 0 20 0 90 ''medium'' ''Promoted''] \<and>
   delete_student None 2 [inserted_row 9 1 4 85 0 20 0 90 ''low'' ''Promoted'',
                inserted_row 6 2 2 50 4 60 3 40 ''high'' ''At Risk of Dropout'',
                inserted_row 7 3 4 85 0 20 0 90 ''medium'' ''Promoted'']
     = (True, [inserted_row 9 1 4 85 0 20 0 90 ''low'' ''Promoted'',
               inserted_row 7 3 4 85 0 20 0 90 ''medium'' ''Promoted'']) \<and>
   without_id 2 [inserted_row 9 1 4 85 0 20 0 90 ''low'' ''Promoted'',
                inserted_row 7 3 4 85 0 20 0 90 ''medium'' ''Promoted'']
     = without_id 2 [inserted_row 9 1 4 85 0 20 0 90 ''low'' ''Promoted'',
                inserted_row 6 2 2 50 4 60 3 40 ''high'' ''At Risk of Dropout'',
                inserted_row 7 3 4 85 0 20 0 90 ''medium'' ''Promoted''] \<and>
   length [inserted_row 9 1 4 85 0 20 0 90 ''low'' ''Promoted'',
           inserted_row 6 2 2 50 4 60 3 40 ''high'' ''At Risk of Dropout'',
           inserted_row 7 3 4 85 0 20 0 90 ''medium'' ''Promoted'']
     \<le> Suc (length (snd (delete_student None 2
           [inserted_row 9 1 4 85 0 20 0 90 ''low'' ''Promoted'',
            inserted_row 6 2 2 50 4 60 3 40 ''high'' ''At Risk of Dropout'',
            inserted_row 7 3 4 85 0 20 0 90 ''medium'' ''Promoted''])))"
proof -
  have pk: "primary_key [inserted_row 9 1 4 85 0 20 0 90 ''low'' ''Promoted'',
                inserted_row 6 2 2 50 4 60 3 40 ''high'' ''At Risk of Dropout'',
                inserted_row 7 3 4 85 0 20 0 90 ''medium'' ''Promoted'']"
    by (simp add: primary_key_def)
  have d: "delete_student None 2 [inserted_row 9 1 4 85 0 20 0 90 ''low'' ''Promoted'',
                inserted_row 6 2 2 50 4 60 3 40 ''high'' ''At Risk of Dropout'',
                inserted_row 7 3 4 85 0 20 0 90 ''medium'' ''Promoted'']
     = (True, [inserted_row 9 1 4 85 0 20 0 90 ''low'' ''Promoted'',
               inserted_row 7 3 4 85 0 20 0 90 ''medium'' ''Promoted''])"
    by (simp add: delete_student_def delete_student_try_def fits_int64_def)
  show ?thesis
    using pk d delete_student_frame [of 2 None
        "[inserted_row 9 1 4 85 0 20 0 90 ''low'' ''Promoted'',
          inserted_row 6 2 2 50 4 60 3 40 ''high'' ''At Risk of Dropout'',
          inserted_row 7 3 4 85 0 20 0 90 ''medium'' ''Promoted'']"]
    by simp
qed

section \<open>Listing\<close>

text \<open>
  C7. A \<^verbatim>\<open>get_all_students\<close> that does not raise returns the frame of the query: its
  rows are the rows of the table, each as often as the table has it, and they come with
  \<^verbatim>\<open>prediction_date\<close> descending. On the table without rows it returns the frame with
  the ten columns and no row, which is empty, as is whatever it returns on that table when
  a call raises.
\<close>

theorem get_all_students_ordered:
  "mset (rows (get_all_students None tbl)) = mset tbl \<and>
   sorted_wrt (\<lambda>a b. prediction_date b \<le> prediction_date a) (rows (get_all_students None tbl)) \<and>
   get_all_students None [] = \<lparr> columns = students_columns, rows = [] \<rparr> \<and>
   df_empty (get_all_students fault [])"
proof -
  have "sorted (map prediction_date (sort_key prediction_date (rev tbl)))"
    by (rule sorted_sort_key)
  then have "sorted_wrt (\<lambda>a b. prediction_date a \<le> prediction_date b)
      (sort_key prediction_date (rev tbl))"
    by (simp only: sorted_map)
  then have "sorted_wrt (\<lambda>a b. prediction_date b \<le> prediction_date a)
      (rows (get_all_students None tbl))"
    by (simp add: rows_get_all_students sorted_wrt_rev)
  moreover have "get_all_students None [] = \<lparr> columns = students_columns, rows = [] \<rparr>"
    by (simp add: get_all_students_def get_all_students_try_def read_sql_query_def)
  moreover have "df_empty (get_all_students fault [])"
    by (simp add: get_all_students_def get_all_students_try_def read_sql_query_def
        DataFrame_def df_empty_def)
  ultimately show ?thesis
    by (simp only: mset_rows_get_all_students simp_thms)
qed

theorem get_all_students_ordered_witness:
  "rows (get_all_students None
      [inserted_row 6 1 4 85 0 20 0 90 ''low'' ''Promoted'',
       inserted_row 9 2 2 50 4 60 3 40 ''high'' ''At Risk of Dropout'',
       inserted_row 7 3 4 85 0 20 0 90 ''medium'' ''Promoted''])
     = [inserted_row 9 2 2 50 4 60 3 40 ''high'' ''At Risk of Dropout'',
        inserted_row 7 3 4 85 0 20 0 90 ''medium'' ''Promoted'',
        inserted_row 6 1 4 85 0 20 0 90 ''low'' ''Promoted''] \<and>
   sorted_wrt (\<lambda>a b. prediction_date b \<le> prediction_date a)
     (rows (get_all_students None
      [inserted_row 6 1 4 85 0 20 0 90 ''low'' ''Promoted'',
       inserted_row 9 2 2 50 4 60 3 40 ''high'' ''At Risk of Dropout'',
       inserted_row 7 3 4 85 0 20 0 90 ''medium'' ''Promoted'']))"
proof -
  have r: "rows (get_all_students None
      [inserted_row 6 1 4 85 0 20 0 90 ''low'' ''Promoted'',
       inserted_row 9 2 2 50 4 60 3 40 ''high'' ''At Risk of Dropout'',
       inserted_row 7 3 4 85 0 20 0 90 ''medium'' ''Promoted''])
     = [inserted_row 9 2 2 50 4 60 3 40 ''high'' ''At Risk of Dropout'',
        inserted_row 7 3 4 85 0 20 0 90 ''medium'' ''Promoted'',
        inserted_row 6 1 4 85 0 20 0 90 ''low'' ''Promoted'']"
    by (simp add: get_all_students_def get_all_students_try_def read_sql_query_def
        inserted_row_def)
  show ?thesis
    using r get_all_students_ordered [of
      "[inserted_row 6 1 4 85 0 20 0 90 ''low'' ''Promoted'',
        inserted_row 9 2 2 50 4 60 3 40 ''high'' ''At Risk of Dropout'',
        inserted_row 7 3 4 85 0 20 0 90 ''medium'' ''Promoted'']"]
    by blast
qed

section \<open>A failed read\<close>

text \<open>
  C9, as the code has it. Whatever the body of \<^verbatim>\<open>try\<close> in \<^verbatim>\<open>get_all_students\<close> raises,
  the function returns \<^verbatim>\<open>pd.DataFrame()\<close>, a frame without rows and without columns. It
  is empty and has length 0, as the frame of a table without rows is, so a caller that
  looks at \<^verbatim>\<open>df.empty\<close> or \<^verbatim>\<open>len(df)\<close> (as every caller in the program does) cannot
  tell a failed read from a table without rows.
\<close>

theorem get_all_students_catches:
  assumes "get_all_students_try fault tbl = Inl e"
  shows "get_all_students fault tbl = DataFrame \<and>
         df_empty (get_all_students fault tbl) = df_empty (get_all_students None []) \<and>
         df_len (get_all_students fault tbl) = df_len (get_all_students None [])"
  using assms
  by (simp add: get_all_students_def get_all_students_try_def read_sql_query_def
      DataFrame_def df_empty_def df_len_def)

theorem get_all_students_catches_witness:
  "get_all_students_try (Some Execute) [inserted_row 9 1 4 85 0 20 0 90 ''low'' ''Promoted'']
     = Inl (sqlite3_Error Execute) \<and>
   get_all_students (Some Execute) [inserted_row 9 1 4 85 0 20 0 90 ''low'' ''Promoted'']
     = DataFrame \<and>
   df_empty (get_all_students (Some Execute) [inserted_row 9 1 4 85 0 20 0 90 ''low'' ''Promoted''])
     = df_empty (get_all_students None [])"
proof -
  have h: "get_all_students_try (Some Execute)
      [inserted_row 9 1 4 85 0 20 0 90 ''low'' ''Promoted''] = Inl (sqlite3_Error Execute)"
    by (simp add: get_all_students_try_def)
  note c = get_all_students_catches [OF h]
  show ?thesis
    using h conjunct1 [OF c] conjunct1 [OF conjunct2 [OF c]]
    by (intro conjI)
qed

text \<open>
  The returned values themselves differ: the frame of a failed read has no columns, the
  frame of a table without rows has the ten columns of the table.
\<close>

theorem get_all_students_failure_differs:
  "get_all_students (Some Connect) [] \<noteq> get_all_students None []"
  by (simp add: get_all_students_def get_all_students_try_def read_sql_query_def
      DataFrame_def students_columns_def)


end
